theory Spec2Isabelle
  imports Complex_Main
begin

section \<open>Numbers, random source and array helpers\<close>

text \<open>
  JavaScript numbers are modelled by the real numbers, except in the backtest, whose
  arithmetic is rounded to binary64 at every operation (see \<open>fl\<close>). Where the option
  pricer can divide by zero the non-finite result is written out (see \<open>jsnum\<close>). Every
  call of \<open>Math.random()\<close> reads the next element of an explicit stream
  \<open>rnd :: nat \<Rightarrow> real\<close>; a counter says how many elements have been consumed. An array
  of point objects that are pairwise distinct is a list of records updated by index; an
  array that may hold one object at several positions is a list of addresses into a
  store (see \<open>calculateTechnicalIndicatorsShared\<close>).
\<close>

definition slice :: "'a list \<Rightarrow> nat \<Rightarrow> nat \<Rightarrow> 'a list" where
  \<comment> \<open>\<open>xs.slice(a, b)\<close> for non-negative \<open>a\<close>, \<open>b\<close>: the end is clamped to the length.\<close>
  "slice xs a b = take (b - a) (drop a xs)"

definition reduce_sum :: "('a \<Rightarrow> real) \<Rightarrow> 'a list \<Rightarrow> real" where
  \<comment> \<open>\<open>xs.reduce((sum, item) => sum + f(item), 0)\<close>\<close>
  "reduce_sum f xs = foldl (\<lambda>s item. s + f item) 0 xs"

section \<open>The price point (interface StockData)\<close>

record StockData =
  date :: string
  open' :: real
  high :: real
  low :: real
  close :: real
  volume :: real
  ma20 :: "real option"
  ma50 :: "real option"
  rsi :: "real option"
  macd :: "real option"
  macdSignal :: "real option"
  upperBB :: "real option"
  lowerBB :: "real option"
  portfolio :: "real option"
  benchmark :: "real option"
  prediction :: "real option"

definition rawPoint :: "string \<Rightarrow> real \<Rightarrow> real \<Rightarrow> real \<Rightarrow> real \<Rightarrow> real \<Rightarrow> StockData" where
  \<comment> \<open>the object literal \<open>{date, open, high, low, close, volume}\<close>: no derived field\<close>
  "rawPoint d opn hi lo cl vol =
     \<lparr>date = d, open' = opn, high = hi, low = lo, close = cl, volume = vol,
      ma20 = None, ma50 = None, rsi = None, macd = None, macdSignal = None,
      upperBB = None, lowerBB = None, portfolio = None, benchmark = None,
      prediction = None\<rparr>"

section \<open>calculateTechnicalIndicators\<close>

definition calculateEMA :: "StockData list \<Rightarrow> real \<Rightarrow> real" where
  \<comment> \<open>\<open>data[0]\<close> of an empty array would raise; every call passes
      \<open>result.slice(0, i + 1)\<close> with \<open>i < result.length\<close>, which is never empty.\<close>
  "calculateEMA data period =
     (let multiplier = 2 / (period + 1)
      in foldl (\<lambda>ema item. close item * multiplier + ema * (1 - multiplier))
           (close (hd data)) (tl data))"

definition setMA20 :: "nat \<Rightarrow> StockData list \<Rightarrow> StockData list" where
  "setMA20 i result =
     (if i \<ge> 19
      then let sum20 = reduce_sum close (slice result (i - 19) (i + 1))
           in result[i := (result ! i)\<lparr>ma20 := Some (sum20 / 20)\<rparr>]
      else result)"

definition setMA50 :: "nat \<Rightarrow> StockData list \<Rightarrow> StockData list" where
  "setMA50 i result =
     (if i \<ge> 49
      then let sum50 = reduce_sum close (slice result (i - 49) (i + 1))
           in result[i := (result ! i)\<lparr>ma50 := Some (sum50 / 50)\<rparr>]
      else result)"

definition rsiChanges :: "StockData list \<Rightarrow> nat \<Rightarrow> real list" where
  \<comment> \<open>the day-over-day changes visited by \<open>for (j = i - 13; j <= i; j++)\<close>\<close>
  "rsiChanges result i =
     map (\<lambda>j. close (result ! j) - close (result ! (j - 1))) [i - 13 ..< i + 1]"

definition rsiValue :: "real list \<Rightarrow> real" where
  "rsiValue changes =
     (let gains = filter (\<lambda>change. change > 0) changes;
          losses = map abs (filter (\<lambda>change. \<not> change > 0) changes);
          avgGain = reduce_sum (\<lambda>gain. gain) gains / 14;
          avgLoss = reduce_sum (\<lambda>loss. loss) losses / 14;
          rs = avgGain / (if avgLoss = 0 then 1 else avgLoss)
      in 100 - 100 / (1 + rs))"

definition setRSI :: "nat \<Rightarrow> StockData list \<Rightarrow> StockData list" where
  "setRSI i result =
     (if i \<ge> 14
      then result[i := (result ! i)\<lparr>rsi := Some (rsiValue (rsiChanges result i))\<rparr>]
      else result)"

definition macdOrZero :: "StockData \<Rightarrow> real" where
  \<comment> \<open>\<open>item.macd || 0\<close>\<close>
  "macdOrZero item = (case macd item of None \<Rightarrow> 0 | Some v \<Rightarrow> if v = 0 then 0 else v)"

definition setMACD :: "nat \<Rightarrow> StockData list \<Rightarrow> StockData list" where
  "setMACD i result =
     (if i \<ge> 26
      then let ema12 = calculateEMA (slice result 0 (i + 1)) 12;
               ema26 = calculateEMA (slice result 0 (i + 1)) 26;
               result1 = result[i := (result ! i)\<lparr>macd := Some (ema12 - ema26)\<rparr>]
           in if i \<ge> 34
              then let macdValues = map macdOrZero (slice result1 (i - 8) (i + 1))
                   in result1[i := (result1 ! i)
                        \<lparr>macdSignal := Some (reduce_sum (\<lambda>val. val) macdValues / 9)\<rparr>]
              else result1
      else result)"

definition setBB :: "nat \<Rightarrow> StockData list \<Rightarrow> StockData list" where
  \<comment> \<open>the slice starts at \<open>i - period + 1\<close>, written \<open>i + 1 - period\<close> on natural numbers\<close>
  "setBB i result =
     (if i \<ge> 19
      then let period = 20;
               sl = slice result (i + 1 - period) (i + 1);
               sma = reduce_sum close sl / real period;
               variance = reduce_sum (\<lambda>item. (close item - sma) ^ 2) sl / real period;
               stdDev = sqrt variance
           in result[i := (result ! i)\<lparr>upperBB := Some (sma + 2 * stdDev),
                                        lowerBB := Some (sma - 2 * stdDev)\<rparr>]
      else result)"

definition setOverlays :: "(nat \<Rightarrow> real) \<Rightarrow> nat \<Rightarrow> StockData list \<times> nat \<Rightarrow> StockData list \<times> nat" where
  \<comment> \<open>portfolio, benchmark and the coin-flipped prediction: three or four random draws\<close>
  "setOverlays rnd i st =
     (let result = fst st; k = snd st; p = result ! i;
          p1 = p\<lparr>portfolio := Some (close p * (1 + rnd k * 0.1))\<rparr>;
          p2 = p1\<lparr>benchmark := Some (close p1 * (1 + rnd (k + 1) * 0.05))\<rparr>
      in if rnd (k + 2) > 0.5
         then (result[i := p2\<lparr>prediction := Some (close p2 * (1 + (rnd (k + 3) - 0.5) * 0.1))\<rparr>],
               k + 4)
         else (result[i := p2], k + 3))"

definition annotateStep :: "(nat \<Rightarrow> real) \<Rightarrow> nat \<Rightarrow> StockData list \<times> nat \<Rightarrow> StockData list \<times> nat" where
  \<comment> \<open>one iteration of the loop body, in the order of the source\<close>
  "annotateStep rnd i st =
     setOverlays rnd i (setBB i (setMACD i (setRSI i (setMA50 i (setMA20 i (fst st))))), snd st)"

definition annotateLoop :: "(nat \<Rightarrow> real) \<Rightarrow> nat \<Rightarrow> StockData list \<times> nat \<Rightarrow> StockData list \<times> nat" where
  \<comment> \<open>the first \<open>n\<close> iterations of \<open>for (i = 0; i < result.length; i++)\<close>\<close>
  "annotateLoop rnd n st = fold (annotateStep rnd) [0 ..< n] st"

definition calculateTechnicalIndicatorsFrom :: "(nat \<Rightarrow> real) \<Rightarrow> nat \<Rightarrow> StockData list \<Rightarrow> StockData list \<times> nat" where
  \<comment> \<open>the annotated series and the number of random draws consumed so far\<close>
  "calculateTechnicalIndicatorsFrom rnd k data = annotateLoop rnd (length data) (data, k)"

definition calculateTechnicalIndicators :: "(nat \<Rightarrow> real) \<Rightarrow> StockData list \<Rightarrow> StockData list" where
  "calculateTechnicalIndicators rnd data = fst (calculateTechnicalIndicatorsFrom rnd 0 data)"

definition baseFields :: "StockData \<Rightarrow> string \<times> real \<times> real \<times> real \<times> real \<times> real" where
  \<comment> \<open>the six fields a point has before annotation\<close>
  "baseFields p = (date p, open' p, high p, low p, close p, volume p)"

section \<open>calculateTechnicalIndicators on an array of shared point objects\<close>



definition setMACDvalue :: "nat \<Rightarrow> StockData list \<Rightarrow> StockData list" where
  \<comment> \<open>the assignment \<open>result[i].macd = ema12 - ema26\<close> alone\<close>
  "setMACDvalue i result =
     (if i \<ge> 26
      then let ema12 = calculateEMA (slice result 0 (i + 1)) 12;
               ema26 = calculateEMA (slice result 0 (i + 1)) 26
           in result[i := (result ! i)\<lparr>macd := Some (ema12 - ema26)\<rparr>]
      else result)"

definition setMACDsignal :: "nat \<Rightarrow> StockData list \<Rightarrow> StockData list" where
  \<comment> \<open>the assignment to \<open>result[i].macdSignal\<close> alone; it reads the array after the
      assignment to \<open>macd\<close>\<close>
  "setMACDsignal i result =
     (if i \<ge> 34
      then let macdValues = map macdOrZero (slice result (i - 8) (i + 1))
           in result[i := (result ! i)
                \<lparr>macdSignal := Some (reduce_sum (\<lambda>val. val) macdValues / 9)\<rparr>]
      else result)"





section \<open>generateMockStockData\<close>

definition basePrices :: "(string \<times> real) list" where
  "basePrices =
     [(''TSLA'', 250), (''AAPL'', 180), (''GOOGL'', 140), (''MSFT'', 350), (''AMZN'', 145),
      (''NVDA'', 450), (''META'', 280), (''BTC-USD'', 45000), (''CUSTOM'', 100),
      (''FORECAST'', 250)]"

definition getBasePriceForSymbol :: "string \<Rightarrow> real" where
  \<comment> \<open>\<open>basePrices[symbol] || 100\<close>\<close>
  "getBasePriceForSymbol symbol =
     (case map_of basePrices symbol of
        None \<Rightarrow> 100
      | Some price \<Rightarrow> if price = 0 then 100 else price)"

definition volatility :: real where
  "volatility = 0.02"

definition drift :: real where
  "drift = 0.0002"

definition randomChange :: "real \<Rightarrow> real" where
  \<comment> \<open>\<open>(Math.random() - 0.5) * volatility\<close>, for the draw \<open>u\<close>\<close>
  "randomChange u = (u - 0.5) * volatility"

definition nextPrice :: "real \<Rightarrow> real \<Rightarrow> real" where
  \<comment> \<open>\<open>currentPrice * (1 + drift + randomChange)\<close>\<close>
  "nextPrice currentPrice u = currentPrice * (1 + drift + randomChange u)"

definition generateDay :: "(nat \<Rightarrow> real) \<Rightarrow> (nat \<Rightarrow> string) \<Rightarrow> nat \<Rightarrow>
    StockData list \<times> real \<times> nat \<Rightarrow> StockData list \<times> real \<times> nat" where
  \<comment> \<open>one iteration of the generator loop: six random draws, in the order of the source;
      \<open>dateOf i\<close> is the ISO date of the start date plus \<open>i\<close> days\<close>
  "generateDay rnd dateOf i st =
     (case st of (data, currentPrice, k) \<Rightarrow>
        let currentPrice1 = nextPrice currentPrice (rnd k);
            hi = currentPrice1 * (1 + rnd (k + 1) * 0.02);
            lo = currentPrice1 * (1 - rnd (k + 2) * 0.02);
            opn = lo + rnd (k + 3) * (hi - lo);
            cl = lo + rnd (k + 4) * (hi - lo);
            vol = real_of_int \<lfloor>rnd (k + 5) * 10000000\<rfloor> + 1000000
        in (data @ [rawPoint (dateOf i) opn hi lo cl vol], currentPrice1, k + 6))"

definition generateLoop :: "(nat \<Rightarrow> real) \<Rightarrow> (nat \<Rightarrow> string) \<Rightarrow> string \<Rightarrow> nat \<Rightarrow>
    StockData list \<times> real \<times> nat" where
  \<comment> \<open>the state after the first \<open>n\<close> iterations of \<open>for (i = 0; i < days; i++)\<close>\<close>
  "generateLoop rnd dateOf symbol n =
     fold (generateDay rnd dateOf) [0 ..< n] ([], getBasePriceForSymbol symbol, 0)"

definition generateMockStockData :: "(nat \<Rightarrow> real) \<Rightarrow> (nat \<Rightarrow> string) \<Rightarrow> string \<Rightarrow> nat \<Rightarrow> StockData list" where
  "generateMockStockData rnd dateOf symbol days =
     (case generateLoop rnd dateOf symbol days of (data, currentPrice, k) \<Rightarrow>
        fst (calculateTechnicalIndicatorsFrom rnd k data))"

section \<open>backtestStrategy\<close>

text \<open>
  The buy rule floors a quotient and spends a product, so the backtest is modelled with
  the rounding of the implementation: \<open>fl\<close> rounds a real number to the nearest number
  with a 53-bit significand, ties to even, as binary64 does for every result between the
  smallest normal number and the largest finite one. Closes and moving averages are
  numbers of that format.
\<close>

definition roundEven :: "real \<Rightarrow> int" where
  "roundEven y =
     (let f = \<lfloor>y\<rfloor>; d = y - real_of_int f
      in if d < 1 / 2 then f else if 1 / 2 < d then f + 1 else if even f then f else f + 1)"

definition fl :: "real \<Rightarrow> real" where
  "fl x =
     (if x = 0 then 0
      else let ulp = 2 powr real_of_int (\<lfloor>log 2 \<bar>x\<bar>\<rfloor> - 52)
           in real_of_int (roundEven (x / ulp)) * ulp)"

definition add64 :: "real \<Rightarrow> real \<Rightarrow> real" where
  "add64 a b = fl (a + b)"

definition sub64 :: "real \<Rightarrow> real \<Rightarrow> real" where
  "sub64 a b = fl (a - b)"

definition mul64 :: "real \<Rightarrow> real \<Rightarrow> real" where
  "mul64 a b = fl (a * b)"

definition div64 :: "real \<Rightarrow> real \<Rightarrow> real" where
  \<comment> \<open>for a divisor that is not zero\<close>
  "div64 a b = fl (a / b)"

record BacktestRecord =
  date_r :: string
  value_r :: real
  return_r :: real

definition trade :: "StockData \<Rightarrow> StockData \<Rightarrow> real \<times> real \<Rightarrow> real \<times> real" where
  \<comment> \<open>the crossover rule on \<open>(capital, shares)\<close>; an optional number used as a condition
      holds when it is present and not zero\<close>
  "trade current prev cs =
     (case cs of (capital, shares) \<Rightarrow>
        (case (ma20 current, ma50 current, ma20 prev, ma50 prev) of
           (Some c20, Some c50, Some p20, Some p50) \<Rightarrow>
             if c20 \<noteq> 0 \<and> c50 \<noteq> 0 \<and> p20 \<noteq> 0 \<and> p50 \<noteq> 0
             then if c20 > c50 \<and> p20 \<le> p50 \<and> capital > 0
                  then let shares1 = real_of_int \<lfloor>div64 capital (close current)\<rfloor>
                       in (sub64 capital (mul64 shares1 (close current)), shares1)
                  else if c20 < c50 \<and> p20 \<ge> p50 \<and> shares > 0
                  then (add64 capital (mul64 shares (close current)), 0)
                  else (capital, shares)
             else (capital, shares)
         | _ \<Rightarrow> (capital, shares)))"

definition backtestStep :: "StockData list \<Rightarrow> nat \<Rightarrow>
    (real \<times> real) \<times> BacktestRecord list \<Rightarrow> (real \<times> real) \<times> BacktestRecord list" where
  "backtestStep data i st =
     (let current = data ! i;
          prev = data ! (i - 1);
          cs = trade current prev (fst st);
          totalValue = add64 (fst cs) (mul64 (snd cs) (close current))
      in (cs, snd st @ [\<lparr>date_r = date current, value_r = totalValue,
                         return_r = mul64 (div64 (sub64 totalValue 10000) 10000) 100\<rparr>]))"

definition backtestLoop :: "StockData list \<Rightarrow> nat \<Rightarrow> (real \<times> real) \<times> BacktestRecord list" where
  \<comment> \<open>the state after the iterations \<open>i = 50, \<dots>, n - 1\<close>\<close>
  "backtestLoop data n = fold (backtestStep data) [50 ..< n] ((10000, 0), [])"

definition backtestStrategy :: "StockData list \<Rightarrow> BacktestRecord list" where
  "backtestStrategy data = snd (backtestLoop data (length data))"

section \<open>The row adapter of handleCustomDataProcessed\<close>

datatype jsval = JNum real | JStr string

type_synonym row = "string \<Rightarrow> jsval option"

fun truthy :: "jsval option \<Rightarrow> bool" where
  "truthy None = False"
| "truthy (Some (JNum x)) = (x \<noteq> 0)"
| "truthy (Some (JStr s)) = (s \<noteq> [])"

fun firstTruthy :: "jsval option list \<Rightarrow> jsval \<Rightarrow> jsval" where
  \<comment> \<open>\<open>a || b || \<dots> || dflt\<close>: the first truthy operand, else the last one\<close>
  "firstTruthy [] dflt = dflt"
| "firstTruthy (a # as) dflt = (if truthy a then the a else firstTruthy as dflt)"

record PricePointRow =
  date_c :: jsval
  open_c :: jsval
  high_c :: jsval
  low_c :: jsval
  close_c :: jsval
  volume_c :: jsval

definition convertRow :: "string \<Rightarrow> real \<Rightarrow> row \<Rightarrow> PricePointRow" where
  \<comment> \<open>\<open>today\<close> is \<open>new Date().toISOString().split('T')[0]\<close>, \<open>u\<close> the random draw that the
      volume filler reads when it is evaluated\<close>
  "convertRow today u item =
     \<lparr>date_c = firstTruthy [item ''date'', item ''Date''] (JStr today),
      open_c = firstTruthy [item ''open'', item ''Open'', item ''close'', item ''Close''] (JNum 100),
      high_c = firstTruthy [item ''high'', item ''High'', item ''close'', item ''Close''] (JNum 100),
      low_c = firstTruthy [item ''low'', item ''Low'', item ''close'', item ''Close''] (JNum 100),
      close_c = firstTruthy [item ''close'', item ''Close'', item ''price'', item ''Price''] (JNum 100),
      volume_c = firstTruthy [item ''volume'', item ''Volume'']
                   (JNum (real_of_int \<lfloor>u * 1000000\<rfloor>))\<rparr>"

fun convertRows :: "string \<Rightarrow> (nat \<Rightarrow> real) \<Rightarrow> nat \<Rightarrow> row list \<Rightarrow> PricePointRow list" where
  \<comment> \<open>\<open>data.map(item => \<dots>)\<close>: a row draws a random number only when its volume is missing\<close>
  "convertRows today rnd k [] = []"
| "convertRows today rnd k (item # items) =
     convertRow today (rnd k) item #
     convertRows today rnd
       (if truthy (item ''volume'') \<or> truthy (item ''Volume'') then k else k + 1) items"

section \<open>calculateOptionPrice\<close>

datatype jsnum = Fin real | PosInf | NegInf | NaN

definition js_div :: "real \<Rightarrow> real \<Rightarrow> jsnum" where
  \<comment> \<open>\<open>a / b\<close> for finite \<open>a\<close> and \<open>b\<close>, with what a zero divisor gives\<close>
  "js_div a b =
     (if b \<noteq> 0 then Fin (a / b)
      else if a > 0 then PosInf else if a < 0 then NegInf else NaN)"

fun js_minus :: "jsnum \<Rightarrow> real \<Rightarrow> jsnum" where
  \<comment> \<open>\<open>x - b\<close> for a finite \<open>b\<close>\<close>
  "js_minus (Fin a) b = Fin (a - b)"
| "js_minus PosInf b = PosInf"
| "js_minus NegInf b = NegInf"
| "js_minus NaN b = NaN"

fun normCDF :: "jsnum \<Rightarrow> real option" where
  \<comment> \<open>\<open>0.5 * (1 + Math.sign(x) * Math.sqrt(1 - Math.exp(-2 * x * x / Math.PI)))\<close>;
      at an infinite \<open>x\<close> the exponential is 0; \<open>None\<close> is NaN\<close>
  "normCDF (Fin x) = Some (0.5 * (1 + sgn x * sqrt (1 - exp (- 2 * x * x / pi))))"
| "normCDF PosInf = Some 1"
| "normCDF NegInf = Some 0"
| "normCDF NaN = None"

record OptionQuote =
  call :: "real option"
  put :: "real option"

definition baseCallPrice :: "real \<Rightarrow> real \<Rightarrow> real \<Rightarrow> real \<Rightarrow> real \<Rightarrow> real option" where
  \<comment> \<open>\<open>S * normCDF(d1) - K * Math.exp(-r * T) * normCDF(d2)\<close>\<close>
  "baseCallPrice S K daysToExpiry riskFreeRate volatilityPct =
     (let T = daysToExpiry / 365;
          r = riskFreeRate / 100;
          sigma = volatilityPct / 100;
          d1 = js_div (ln (S / K) + (r + 0.5 * sigma * sigma) * T) (sigma * sqrt T);
          d2 = js_minus d1 (sigma * sqrt T)
      in case (normCDF d1, normCDF d2) of
           (Some n1, Some n2) \<Rightarrow> Some (S * n1 - K * exp (- r * T) * n2)
         | _ \<Rightarrow> None)"

definition adjustedCallPrice :: "real \<Rightarrow> real \<Rightarrow> real \<Rightarrow> real \<Rightarrow> real \<Rightarrow> real option" where
  \<comment> \<open>the call price after the in-the-money and out-of-the-money adjustment, before
      \<open>Math.max(callPrice, 0.01)\<close>\<close>
  "adjustedCallPrice S K daysToExpiry riskFreeRate volatilityPct =
     (let T = daysToExpiry / 365;
          sigma = volatilityPct / 100;
          callPrice = baseCallPrice S K daysToExpiry riskFreeRate volatilityPct;
          timeDecayFactor = max 0.1 T;
          volatilityPremium = sigma * S * 0.1;
          moneynessFactor = \<bar>S - K\<bar> / K
      in if S > K
         then map_option (\<lambda>c. c + volatilityPremium * (1 + moneynessFactor)) callPrice
         else map_option (\<lambda>c. max c (timeDecayFactor * sigma * S * 0.05)) callPrice)"

definition parityPutPrice :: "real \<Rightarrow> real \<Rightarrow> real \<Rightarrow> real \<Rightarrow> real \<Rightarrow> real option" where
  \<comment> \<open>\<open>putPrice = callPrice + K * Math.exp(-r * T) - S\<close> from the floored call price\<close>
  "parityPutPrice S K daysToExpiry riskFreeRate volatilityPct =
     (let T = daysToExpiry / 365;
          r = riskFreeRate / 100;
          callPrice = map_option (\<lambda>c. max c 0.01)
                        (adjustedCallPrice S K daysToExpiry riskFreeRate volatilityPct)
      in map_option (\<lambda>c. c + K * exp (- r * T) - S) callPrice)"

definition optionPrice :: "real \<Rightarrow> real \<Rightarrow> real \<Rightarrow> real \<Rightarrow> real \<Rightarrow> OptionQuote" where
  \<comment> \<open>the body of \<open>calculateOptionPrice\<close> for a spot price \<open>S\<close>; \<open>Math.max\<close> of NaN is NaN\<close>
  "optionPrice S K daysToExpiry riskFreeRate volatilityPct =
     (let callPrice = map_option (\<lambda>c. max c 0.01)
                        (adjustedCallPrice S K daysToExpiry riskFreeRate volatilityPct);
          putPrice = parityPutPrice S K daysToExpiry riskFreeRate volatilityPct
      in \<lparr>call = map_option (\<lambda>c. max c 0.01) callPrice,
          put = map_option (\<lambda>p. max p 0.01) putPrice\<rparr>)"

definition lastCloseOr :: "StockData list \<Rightarrow> real \<Rightarrow> real" where
  \<comment> \<open>\<open>stockData[stockData.length - 1]?.close || dflt\<close>\<close>
  "lastCloseOr stockData dflt =
     (if stockData = [] then dflt
      else if close (last stockData) = 0 then dflt else close (last stockData))"

definition calculateOptionPrice :: "StockData list \<Rightarrow> real \<Rightarrow> real \<Rightarrow> real \<Rightarrow> real \<Rightarrow> OptionQuote" where
  "calculateOptionPrice stockData strikePrice daysToExpiry riskFreeRate volatilityPct =
     optionPrice (lastCloseOr stockData strikePrice) strikePrice daysToExpiry riskFreeRate
       volatilityPct"

text \<open>
  The reference definition of the call price, in the words of the specification: the
  quotient in \<open>d1\<close> is the division of the implementation language, so a zero \<open>\<sigma>\<surd>T\<close>
  gives a limit or no number.
\<close>

fun Phi :: "jsnum \<Rightarrow> real option" where
  "Phi (Fin x) = Some (0.5 * (1 + sgn x * sqrt (1 - exp (- 2 * x\<^sup>2 / pi))))"
| "Phi PosInf = Some (0.5 * (1 + 1 * sqrt (1 - 0)))"
| "Phi NegInf = Some (0.5 * (1 + (- 1) * sqrt (1 - 0)))"
| "Phi NaN = None"

definition referenceCall :: "real \<Rightarrow> real \<Rightarrow> real \<Rightarrow> real \<Rightarrow> real \<Rightarrow> real option" where
  "referenceCall S K days rate vol =
     (let T = days / 365;
          r = rate / 100;
          \<sigma> = vol / 100;
          d1 = js_div (ln (S / K) + (r + \<sigma>\<^sup>2 / 2) * T) (\<sigma> * sqrt T);
          d2 = js_minus d1 (\<sigma> * sqrt T)
      in case Phi d1 of
           None \<Rightarrow> None
         | Some \<Phi>1 \<Rightarrow>
             (case Phi d2 of
                None \<Rightarrow> None
              | Some \<Phi>2 \<Rightarrow>
                  let base = S * \<Phi>1 - K * exp (- (r * T)) * \<Phi>2;
                      adjusted = (if S > K then base + \<sigma> * S * 0.1 * (1 + \<bar>S - K\<bar> / K)
                                  else max base (max 0.1 T * \<sigma> * S * 0.05))
                  in Some (max adjusted 0.01)))"

definition referenceCallReal :: "real \<Rightarrow> real \<Rightarrow> real \<Rightarrow> real \<Rightarrow> real \<Rightarrow> real" where
  \<comment> \<open>the same formula over the real numbers, meaningful when \<open>\<sigma>\<surd>T \<noteq> 0\<close>\<close>
  "referenceCallReal S K days rate vol =
     (let T = days / 365;
          r = rate / 100;
          \<sigma> = vol / 100;
          d1 = (ln (S / K) + (r + \<sigma>\<^sup>2 / 2) * T) / (\<sigma> * sqrt T);
          d2 = d1 - \<sigma> * sqrt T;
          \<Phi> = (\<lambda>x. 0.5 * (1 + sgn x * sqrt (1 - exp (- 2 * x\<^sup>2 / pi))));
          base = S * \<Phi> d1 - K * exp (- (r * T)) * \<Phi> d2;
          adjusted = (if S > K then base + \<sigma> * S * 0.1 * (1 + \<bar>S - K\<bar> / K)
                      else max base (max 0.1 T * \<sigma> * S * 0.05))
      in max adjusted 0.01)"

section \<open>runMonteCarloSimulation\<close>

definition simulationCount :: nat where
  \<comment> \<open>the local constant \<open>simulations\<close>\<close>
  "simulationCount = 10000"

definition timeHorizon :: nat where
  "timeHorizon = 252"

definition dailyReturn :: real where
  "dailyReturn = 0.0008"

definition dailyVolatility :: real where
  "dailyVolatility = 0.02"

definition simulatePath :: "(nat \<Rightarrow> real) \<Rightarrow> nat \<Rightarrow> real \<Rightarrow> real" where
  \<comment> \<open>the inner loop of one trial, whose first random draw is number \<open>k\<close>\<close>
  "simulatePath rnd k price0 =
     fold (\<lambda>day price. price * (1 + dailyReturn + (rnd (k + day) - 0.5) * dailyVolatility * 2))
       [0 ..< timeHorizon] price0"

definition trialResults :: "(nat \<Rightarrow> real) \<Rightarrow> StockData list \<Rightarrow> real list" where
  \<comment> \<open>the array \<open>results\<close> after the outer loop, in trial order\<close>
  "trialResults rnd stockData =
     map (\<lambda>i. simulatePath rnd (i * timeHorizon) (lastCloseOr stockData 100))
       [0 ..< simulationCount]"

record MonteCarloResults =
  expectedValue :: real
  var95 :: real
  var99 :: real
  confidence95 :: real
  confidence99 :: real
  simulations :: "real list"

definition runMonteCarloSimulation :: "(nat \<Rightarrow> real) \<Rightarrow> StockData list \<Rightarrow> MonteCarloResults" where
  \<comment> \<open>\<open>results.sort((a, b) => a - b)\<close> sorts the array in place: every later read of
      \<open>results\<close> sees the sorted array\<close>
  "runMonteCarloSimulation rnd stockData =
     (let results = sort (trialResults rnd stockData);
          v95 = results ! nat \<lfloor>real simulationCount * 0.05\<rfloor>;
          v99 = results ! nat \<lfloor>real simulationCount * 0.01\<rfloor>;
          expected = reduce_sum (\<lambda>val. val) results / real simulationCount
      in \<lparr>expectedValue = expected, var95 = v95, var99 = v99,
          confidence95 = v95, confidence99 = v99,
          simulations = slice results 0 100\<rparr>)"

section \<open>optimizePortfolio\<close>

record OptimizedPortfolio =
  assets :: "string list"
  weights :: "real list"
  expectedReturn :: real
  expectedVolatility :: real

definition sharpeRatios :: "real list \<Rightarrow> real list \<Rightarrow> real list" where
  \<comment> \<open>\<open>returns.map((ret, i) => ret / volatilities[i])\<close>, for \<open>volatilities\<close> at least as
      long as \<open>returns\<close> and without zeros\<close>
  "sharpeRatios returns volatilities =
     map (\<lambda>i. returns ! i / volatilities ! i) [0 ..< length returns]"

definition optimalWeights :: "real list \<Rightarrow> real list \<Rightarrow> real list" where
  "optimalWeights returns volatilities =
     (let ratios = sharpeRatios returns volatilities;
          totalSharpe = reduce_sum (\<lambda>sharpe. sharpe) ratios
      in map (\<lambda>sharpe. sharpe / totalSharpe * 100) ratios)"

definition optimize :: "string list \<Rightarrow> real list \<Rightarrow> real list \<Rightarrow> OptimizedPortfolio" where
  \<comment> \<open>the body of \<open>optimizePortfolio\<close> for given parallel arrays\<close>
  "optimize names returns volatilities =
     (let ws = optimalWeights returns volatilities
      in \<lparr>assets = names,
          weights = ws,
          expectedReturn =
            reduce_sum (\<lambda>i. returns ! i * (ws ! i / 100)) [0 ..< length returns],
          expectedVolatility =
            sqrt (reduce_sum (\<lambda>i. (volatilities ! i * (ws ! i / 100)) ^ 2)
                    [0 ..< length volatilities])\<rparr>)"

definition optimizePortfolio :: OptimizedPortfolio where
  "optimizePortfolio =
     optimize [''Tech'', ''Healthcare'', ''Finance'', ''Energy'', ''Consumer'']
       [0.12, 0.08, 0.06, 0.10, 0.07] [0.20, 0.15, 0.12, 0.25, 0.14]"

section \<open>Auxiliary definitions for the statements\<close>

definition firstTrialHigh :: "nat \<Rightarrow> real" where
  \<comment> \<open>a random stream: 0.5 for the 252 draws of the first trial, 0 afterwards\<close>
  "firstTrialHigh k = (if k < 252 then 0.5 else 0)"

definition pricePoint :: "real \<Rightarrow> real option \<Rightarrow> real option \<Rightarrow> StockData" where
  \<comment> \<open>a point with the given close and moving averages\<close>
  "pricePoint cl m20 m50 =
     (rawPoint ''2024-01-01'' cl cl cl cl 1000000)\<lparr>ma20 := m20, ma50 := m50\<rparr>"

definition overspendClose :: real where
  \<comment> \<open>the binary64 number written 303.03030303030306\<close>
  "overspendClose = 5330965468004849 / 2 ^ 44"

definition crashClose :: real where
  "crashClose = 1 / 2 ^ 50"

definition overspendSeries :: "StockData list" where
  \<comment> \<open>closes: fifty times 1, then \<open>overspendClose\<close>, then \<open>crashClose\<close>; the moving
      averages are the ones the annotation pass computes for these closes in binary64\<close>
  "overspendSeries =
     replicate 19 (pricePoint 1 None None) @
     replicate 30 (pricePoint 1 (Some 1) None) @
     [pricePoint 1 (Some 1) (Some 1),
      pricePoint overspendClose
        (Some (2266086801139501 / 2 ^ 47)) (Some (3963508853875989 / 2 ^ 49)),
      pricePoint crashClose
        (Some (2259049926721735 / 2 ^ 47)) (Some (3952249854807563 / 2 ^ 49))]"

section \<open>Sums and list updates\<close>

lemma foldl_add_sum: "foldl (\<lambda>s item. s + f item) a xs = a + sum_list (map f xs)"
  by (induction xs arbitrary: a) (simp_all add: add.assoc)

lemma reduce_sum_sum_list: "reduce_sum f xs = sum_list (map f xs)"
  by (simp add: reduce_sum_def foldl_add_sum)


lemma map_update_same:
  "f y = f (xs ! i) \<Longrightarrow> map f (xs[i := y]) = map f xs"
  by (cases "i < length xs") (simp_all add: map_update list_update_beyond list_update_same_conv)

section \<open>Properties of calculateTechnicalIndicators\<close>

lemma length_setMA20 [simp]: "length (setMA20 i r) = length r"
  by (simp add: setMA20_def Let_def)
lemma length_setMA50 [simp]: "length (setMA50 i r) = length r"
  by (simp add: setMA50_def Let_def)
lemma length_setRSI [simp]: "length (setRSI i r) = length r"
  by (simp add: setRSI_def)
lemma length_setMACD [simp]: "length (setMACD i r) = length r"
  by (simp add: setMACD_def Let_def)
lemma length_setBB [simp]: "length (setBB i r) = length r"
  by (simp add: setBB_def Let_def)
lemma length_setOverlays [simp]: "length (fst (setOverlays rnd i st)) = length (fst st)"
  by (simp add: setOverlays_def Let_def)
lemma length_annotateStep [simp]: "length (fst (annotateStep rnd i st)) = length (fst st)"
  by (simp add: annotateStep_def)

lemma base_setMA20 [simp]: "map baseFields (setMA20 i r) = map baseFields r"
  by (simp add: setMA20_def Let_def map_update_same baseFields_def)
lemma base_setMA50 [simp]: "map baseFields (setMA50 i r) = map baseFields r"
  by (simp add: setMA50_def Let_def map_update_same baseFields_def)
lemma base_setRSI [simp]: "map baseFields (setRSI i r) = map baseFields r"
  by (simp add: setRSI_def Let_def map_update_same baseFields_def)
lemma base_setMACD [simp]: "map baseFields (setMACD i r) = map baseFields r"
proof (cases "i < length r")
  case True
  then show ?thesis
    by (simp add: setMACD_def Let_def map_update_same baseFields_def)
next
  case False
  then show ?thesis
    by (simp add: setMACD_def Let_def list_update_beyond)
qed
lemma base_setBB [simp]: "map baseFields (setBB i r) = map baseFields r"
  by (simp add: setBB_def Let_def map_update_same baseFields_def)
lemma base_setOverlays [simp]: "map baseFields (fst (setOverlays rnd i st)) = map baseFields (fst st)"
  by (simp add: setOverlays_def Let_def map_update_same baseFields_def)
lemma base_annotateStep [simp]: "map baseFields (fst (annotateStep rnd i st)) = map baseFields (fst st)"
  by (simp add: annotateStep_def)

lemma base_annotateLoop: "map baseFields (fst (annotateLoop rnd n st)) = map baseFields (fst st)"
  by (induction n) (simp_all add: annotateLoop_def)

lemma length_annotateLoop: "length (fst (annotateLoop rnd n st)) = length (fst st)"
  by (induction n) (simp_all add: annotateLoop_def)

text \<open>
  Claim C10. \<open>calculateTechnicalIndicators\<close> returns a series of the same length as its
  input, and the base fields date, open, high, low, close and volume of every point are
  the ones of the input point at the same position: whatever the pass writes, it writes
  to derived fields only.
\<close>

theorem C10_annotate_frame:
  "length (calculateTechnicalIndicators rnd data) = length data \<and>
   map baseFields (calculateTechnicalIndicators rnd data) = map baseFields data"
  by (simp add: calculateTechnicalIndicators_def calculateTechnicalIndicatorsFrom_def
        base_annotateLoop length_annotateLoop)





















lemma length_setMACDvalue [simp]: "length (setMACDvalue i r) = length r"
  by (simp add: setMACDvalue_def Let_def)

lemma length_setMACDsignal [simp]: "length (setMACDsignal i r) = length r"
  by (simp add: setMACDsignal_def Let_def)
















section \<open>Properties of generateMockStockData\<close>

lemma generateLoop_Suc:
  "generateLoop rnd dateOf symbol (Suc n) =
     generateDay rnd dateOf n (generateLoop rnd dateOf symbol n)"
  by (simp add: generateLoop_def)

lemma generateLoop_counter: "snd (snd (generateLoop rnd dateOf symbol n)) = 6 * n"
proof (induction n)
  case 0
  then show ?case by (simp add: generateLoop_def)
next
  case (Suc n)
  then show ?case
    by (auto simp add: generateLoop_Suc generateDay_def Let_def split: prod.splits)
qed

lemma generateLoop_price:
  "fst (snd (generateLoop rnd dateOf symbol (Suc n))) =
     nextPrice (fst (snd (generateLoop rnd dateOf symbol n))) (rnd (6 * n))"
  using generateLoop_counter [of rnd dateOf symbol n]
  by (auto simp add: generateLoop_Suc generateDay_def Let_def split: prod.splits)

text \<open>
  Claim C2, as amended. Day \<open>n\<close> of the generator reads its noise from random draw number
  \<open>6 n\<close>. For a draw \<open>u\<close> in \<open>[0, 1)\<close> the price is advanced by
  \<open>price \<leftarrow> price \<cdot> (1 + 0.0002 + noise)\<close> with \<open>noise = (u - 0.5) \<cdot> 0.02\<close>, which lies in
  \<open>[-0.01, 0.01)\<close>: the spread is \<open>volatility\<close> wide, half of it on each side.
\<close>

theorem C2_series_step_noise:
  assumes "0 \<le> rnd (6 * n)" "rnd (6 * n) < 1"
  shows "fst (snd (generateLoop rnd dateOf symbol (Suc n))) =
           fst (snd (generateLoop rnd dateOf symbol n)) * (1 + 0.0002 + randomChange (rnd (6 * n))) \<and>
         randomChange (rnd (6 * n)) = (rnd (6 * n) - 0.5) * 0.02 \<and>
         - 0.01 \<le> randomChange (rnd (6 * n)) \<and> randomChange (rnd (6 * n)) < 0.01"
  using assms
  by (simp add: generateLoop_price nextPrice_def drift_def randomChange_def volatility_def)

text \<open>The first day of a series whose draws are all 0: the noise is \<open>-0.01\<close>.\<close>

theorem C2_series_step_noise_witness:
  "fst (snd (generateLoop (\<lambda>k. 0) (\<lambda>i. ''2024-01-01'') ''TSLA'' (Suc 0))) =
     fst (snd (generateLoop (\<lambda>k. 0) (\<lambda>i. ''2024-01-01'') ''TSLA'' 0)) * (1 + 0.0002 + randomChange 0) \<and>
   randomChange 0 = - 0.01"
  using C2_series_step_noise [of "\<lambda>k. 0" 0 "\<lambda>i. ''2024-01-01''" "''TSLA''"] by simp

text \<open>
  Claim C2 as stated fails: the smallest draw gives the noise \<open>-0.01\<close>, and no draw \<open>u\<close> in
  \<open>[0, 1)\<close> gives a noise beyond 0.01 in absolute value, where a uniform noise on
  \<open>[-0.02, 0.02]\<close> lies half of the time.
\<close>

theorem C2_noise_range_counterexample:
  "randomChange 0 = - 0.01 \<and> \<not> (\<exists>u. 0 \<le> u \<and> u < 1 \<and> 0.01 < \<bar>randomChange u\<bar>)"
proof
  show "randomChange 0 = - 0.01"
    by (simp add: randomChange_def volatility_def)
  show "\<not> (\<exists>u. 0 \<le> u \<and> u < 1 \<and> 0.01 < \<bar>randomChange u\<bar>)"
  proof
    assume "\<exists>u. 0 \<le> u \<and> u < 1 \<and> 0.01 < \<bar>randomChange u\<bar>"
    then obtain u :: real where u: "0 \<le> u" "u < 1" "0.01 < \<bar>randomChange u\<bar>"
      by blast
    have "- 0.01 \<le> randomChange u" "randomChange u < 0.01"
      using u(1,2) by (simp_all add: randomChange_def volatility_def)
    then have "\<bar>randomChange u\<bar> \<le> 0.01"
      by (simp add: abs_le_iff)
    with u(3) show False by simp
  qed
qed

section \<open>Properties of the row adapter\<close>

text \<open>
  Claim C4, at the row \<open>{price: 50}\<close> with the random draw 0.5: \<open>close\<close> resolves through
  the \<open>price\<close> alias to 50, but \<open>open\<close>, \<open>high\<close> and \<open>low\<close> fall back to 100, since their
  chains look at \<open>close\<close> and \<open>Close\<close> only; the absent volume is the random filler.
\<close>

theorem C4_adapter_price_alias:
  "close_c (convertRow ''2024-01-01'' 0.5 [''price'' \<mapsto> JNum 50]) = JNum 50 \<and>
   open_c (convertRow ''2024-01-01'' 0.5 [''price'' \<mapsto> JNum 50]) = JNum 100 \<and>
   high_c (convertRow ''2024-01-01'' 0.5 [''price'' \<mapsto> JNum 50]) = JNum 100 \<and>
   low_c (convertRow ''2024-01-01'' 0.5 [''price'' \<mapsto> JNum 50]) = JNum 100 \<and>
   volume_c (convertRow ''2024-01-01'' 0.5 [''price'' \<mapsto> JNum 50]) = JNum 500000"
  by (simp add: convertRow_def)

section \<open>Properties of calculateOptionPrice\<close>

text \<open>
  Claim C6, at \<open>S = K = 100\<close>, 30 days, rate 0 and volatility 0, an input with \<open>S > 0\<close>,
  \<open>K > 0\<close> and \<open>daysToExpiry > 0\<close>: \<open>d1\<close> is \<open>0 / 0\<close>, the two \<open>Math.max\<close> floors let the NaN
  through, and neither the call nor the put of the quote is a number, so neither is
  at least 0.01.
\<close>

theorem C6_zero_volatility_nan:
  "(0::real) < 100 \<and> (0::real) < 30 \<and>
   call (optionPrice 100 100 30 0 0) = None \<and> put (optionPrice 100 100 30 0 0) = None"
  by (simp add: optionPrice_def parityPutPrice_def adjustedCallPrice_def baseCallPrice_def
        js_div_def Let_def)

lemma normCDF_Phi: "normCDF x = Phi x"
  by (cases x) (simp_all add: power2_eq_square)

lemma half_square: "0.5 * (s::real) * s = s\<^sup>2 / 2"
  by (simp add: power2_eq_square)

text \<open>
  Claim C7. For \<open>S > 0\<close>, \<open>K > 0\<close> and \<open>days > 0\<close> the call price of the quote is the
  reference definition: \<open>T\<close>, \<open>r\<close>, \<open>\<sigma>\<close>, \<open>d1\<close>, \<open>d2\<close>, the closed-form \<open>\<Phi>\<close>, the base price,
  the in-the-money premium or the out-of-the-money floor, and the floor at 0.01. When
  the volatility is not zero this is the formula over the real numbers.
\<close>

theorem C7_option_call_reference:
  assumes "0 < S" "0 < K" "0 < days"
  shows "call (optionPrice S K days rate vol) = referenceCall S K days rate vol \<and>
         (vol \<noteq> 0 \<longrightarrow>
            referenceCall S K days rate vol = Some (referenceCallReal S K days rate vol))"
proof
  define d1 where
    "d1 = js_div (ln (S / K) + (rate / 100 + (vol / 100)\<^sup>2 / 2) * (days / 365))
            (vol / 100 * sqrt (days / 365))"
  define d2 where "d2 = js_minus d1 (vol / 100 * sqrt (days / 365))"
  have code: "baseCallPrice S K days rate vol =
      (case (Phi d1, Phi d2) of
         (Some n1, Some n2) \<Rightarrow> Some (S * n1 - K * exp (- (rate / 100) * (days / 365)) * n2)
       | _ \<Rightarrow> None)"
    unfolding baseCallPrice_def Let_def normCDF_Phi half_square d1_def d2_def ..
  have ref: "referenceCall S K days rate vol =
      (case Phi d1 of
           None \<Rightarrow> None
         | Some n1 \<Rightarrow>
             (case Phi d2 of
                None \<Rightarrow> None
              | Some n2 \<Rightarrow>
                  Some (max (if S > K
                             then S * n1 - K * exp (- (rate / 100 * (days / 365))) * n2
                                  + vol / 100 * S * 0.1 * (1 + \<bar>S - K\<bar> / K)
                             else max (S * n1 - K * exp (- (rate / 100 * (days / 365))) * n2)
                                    (max 0.1 (days / 365) * (vol / 100) * S * 0.05)) 0.01)))"
    unfolding referenceCall_def Let_def d1_def d2_def ..
  show "call (optionPrice S K days rate vol) = referenceCall S K days rate vol"
    unfolding ref
    by (cases "Phi d1"; cases "Phi d2")
       (simp_all add: optionPrice_def adjustedCallPrice_def code Let_def)
  show "vol \<noteq> 0 \<longrightarrow>
            referenceCall S K days rate vol = Some (referenceCallReal S K days rate vol)"
  proof
    assume "vol \<noteq> 0"
    with assms(3) have "vol / 100 * sqrt (days / 365) \<noteq> 0" by simp
    then show "referenceCall S K days rate vol = Some (referenceCallReal S K days rate vol)"
      by (simp add: referenceCall_def referenceCallReal_def Let_def js_div_def)
  qed
qed

text \<open>The quote for \<open>S = K = 100\<close>, 30 days, rate 5, volatility 25, against the reference.\<close>

theorem C7_option_call_reference_witness:
  "(0::real) < 100 \<and> (0::real) < 30 \<and>
   call (optionPrice 100 100 30 5 25) = referenceCall 100 100 30 5 25 \<and>
   referenceCall 100 100 30 5 25 = Some (referenceCallReal 100 100 30 5 25)"
  using C7_option_call_reference [of 100 100 30 5 25] by simp

section \<open>Properties of runMonteCarloSimulation\<close>

lemma length_trialResults: "length (trialResults rnd stockData) = 10000"
  by (simp add: trialResults_def simulationCount_def)

text \<open>
  Claim C8. In every run \<open>var95\<close> is the element at index \<open>\<lfloor>0.05 \<cdot> paths\<rfloor>\<close> and \<open>var99\<close> the
  element at index \<open>\<lfloor>0.01 \<cdot> paths\<rfloor>\<close> of the terminal prices sorted ascending, both indices
  are inside the array, and \<open>var99 \<le> var95\<close>.
\<close>

theorem C8_monte_carlo_quantiles:
  "var95 (runMonteCarloSimulation rnd stockData) =
     sort (trialResults rnd stockData) ! nat \<lfloor>0.05 * real simulationCount\<rfloor> \<and>
   var99 (runMonteCarloSimulation rnd stockData) =
     sort (trialResults rnd stockData) ! nat \<lfloor>0.01 * real simulationCount\<rfloor> \<and>
   nat \<lfloor>0.05 * real simulationCount\<rfloor> < length (trialResults rnd stockData) \<and>
   nat \<lfloor>0.01 * real simulationCount\<rfloor> < length (trialResults rnd stockData) \<and>
   var99 (runMonteCarloSimulation rnd stockData) \<le> var95 (runMonteCarloSimulation rnd stockData)"
proof -
  have s: "sorted (sort (trialResults rnd stockData))"
    by simp
  have "sort (trialResults rnd stockData) ! 100 \<le> sort (trialResults rnd stockData) ! 500"
    by (rule sorted_nth_mono [OF s]) (simp_all add: length_trialResults)
  then show ?thesis
    by (simp add: runMonteCarloSimulation_def Let_def simulationCount_def length_trialResults)
qed

lemma fold_constant_factor:
  "(\<And>day. day < n \<Longrightarrow> rnd (k + day) = u) \<Longrightarrow>
   fold (\<lambda>day price. price * (1 + dailyReturn + (rnd (k + day) - 0.5) * dailyVolatility * 2))
     [0 ..< n] (p::real)
   = p * (1 + dailyReturn + (u - 0.5) * dailyVolatility * 2) ^ n"
  by (induction n) simp_all

lemma simulatePath_constant:
  "(\<And>day. day < timeHorizon \<Longrightarrow> rnd (k + day) = u) \<Longrightarrow>
   simulatePath rnd k p = p * (1 + dailyReturn + (u - 0.5) * dailyVolatility * 2) ^ timeHorizon"
  unfolding simulatePath_def by (rule fold_constant_factor)

lemma sort_first_le:
  assumes "x \<in> set (xs::real list)"
  shows "sort xs ! 0 \<le> x"
proof -
  from assms have "x \<in> set (sort xs)" by simp
  then have "\<exists>j < length (sort xs). sort xs ! j = x"
    unfolding in_set_conv_nth .
  then obtain j where j: "j < length (sort xs)" "sort xs ! j = x"
    by blast
  have "sort xs ! 0 \<le> sort xs ! j"
    by (rule sorted_nth_mono [OF sorted_sort]) (use j in simp_all)
  with j show ?thesis by simp
qed

text \<open>
  Claim C1, at a run whose first trial draws 0.5 on each of its 252 days and every
  later trial draws 0, from the default start price 100. The sample has 100 elements,
  the first trial ends at \<open>100 \<cdot> 1.0008\<^sup>2\<^sup>5\<^sup>2\<close>, but the first element of the sample is at
  most \<open>100 \<cdot> 0.9808\<^sup>2\<^sup>5\<^sup>2\<close>: the sample is a prefix of the sorted array, not the first 100
  trials in trial order.
\<close>

theorem C1_monte_carlo_sample_sorted:
  "length (simulations (runMonteCarloSimulation firstTrialHigh [])) = 100 \<and>
   trialResults firstTrialHigh [] ! 0 = 100 * 1.0008 ^ 252 \<and>
   simulations (runMonteCarloSimulation firstTrialHigh []) ! 0 \<le> 100 * 0.9808 ^ 252 \<and>
   simulations (runMonteCarloSimulation firstTrialHigh []) \<noteq> take 100 (trialResults firstTrialHigh [])"
proof -
  let ?xs = "trialResults firstTrialHigh []"
  have t0: "?xs ! 0 = 100 * 1.0008 ^ 252"
  proof -
    have "simulatePath firstTrialHigh 0 100 =
        100 * (1 + dailyReturn + (0.5 - 0.5) * dailyVolatility * 2) ^ timeHorizon"
      by (rule simulatePath_constant) (simp add: firstTrialHigh_def timeHorizon_def)
    then show ?thesis
      by (simp add: trialResults_def simulationCount_def lastCloseOr_def dailyReturn_def
            timeHorizon_def)
  qed
  have t1: "?xs ! 1 = 100 * 0.9808 ^ 252"
  proof -
    have "simulatePath firstTrialHigh 252 100 =
        100 * (1 + dailyReturn + (0 - 0.5) * dailyVolatility * 2) ^ timeHorizon"
      by (rule simulatePath_constant) (simp add: firstTrialHigh_def timeHorizon_def)
    moreover have "?xs ! 1 = simulatePath firstTrialHigh 252 100"
      by (simp add: trialResults_def simulationCount_def lastCloseOr_def timeHorizon_def)
    ultimately show ?thesis
      by (simp add: dailyReturn_def dailyVolatility_def timeHorizon_def)
  qed
  have "?xs ! 1 \<in> set ?xs"
    by (rule nth_mem) (simp add: length_trialResults)
  then have le: "sort ?xs ! 0 \<le> 100 * 0.9808 ^ 252"
    using sort_first_le [of "?xs ! 1" ?xs] t1 by simp
  have s0: "simulations (runMonteCarloSimulation firstTrialHigh []) ! 0 = sort ?xs ! 0"
    by (simp add: runMonteCarloSimulation_def Let_def slice_def)
  have len: "length (simulations (runMonteCarloSimulation firstTrialHigh [])) = 100"
    by (simp add: runMonteCarloSimulation_def Let_def slice_def length_trialResults)
  have lt: "(0.9808::real) ^ 252 < 1.0008 ^ 252"
    by (rule power_strict_mono) simp_all
  have ne: "simulations (runMonteCarloSimulation firstTrialHigh []) \<noteq> take 100 ?xs"
  proof
    assume "simulations (runMonteCarloSimulation firstTrialHigh []) = take 100 ?xs"
    then have "simulations (runMonteCarloSimulation firstTrialHigh []) ! 0 = ?xs ! 0"
      by simp
    with s0 le t0 lt show False by simp
  qed
  from len t0 le s0 ne show ?thesis by simp
qed

section \<open>Properties of optimizePortfolio\<close>

lemma sum_list_scaled: "sum_list (map (\<lambda>x. x / c * 100) xs) = sum_list xs / c * (100::real)"
  by (induction xs) (simp_all add: add_divide_distrib distrib_right)

lemma sum_list_pos_real:
  "xs \<noteq> [] \<Longrightarrow> (\<And>x. x \<in> set xs \<Longrightarrow> 0 < x) \<Longrightarrow> 0 < sum_list (xs::real list)"
proof (induction xs)
  case Nil
  then show ?case by simp
next
  case (Cons a xs)
  have "0 \<le> sum_list xs"
    by (rule sum_list_nonneg) (use Cons.prems(2) in \<open>simp add: less_imp_le\<close>)
  moreover have "0 < a" using Cons.prems(2) by simp
  ultimately show ?case by simp
qed

lemma sharpeRatios_pos:
  assumes "length volatilities = length returns"
    and "\<And>r. r \<in> set returns \<Longrightarrow> 0 < r" and "\<And>v. v \<in> set volatilities \<Longrightarrow> 0 < v"
    and "x \<in> set (sharpeRatios returns volatilities)"
  shows "0 < x"
proof -
  from assms(4) obtain i where i: "i < length returns" "x = returns ! i / volatilities ! i"
    by (auto simp add: sharpeRatios_def)
  with assms(1-3) show ?thesis by (simp add: i)
qed

lemma totalSharpe_pos:
  assumes "length volatilities = length returns" "returns \<noteq> []"
    and "\<And>r. r \<in> set returns \<Longrightarrow> 0 < r" and "\<And>v. v \<in> set volatilities \<Longrightarrow> 0 < v"
  shows "0 < sum_list (sharpeRatios returns volatilities)"
proof (rule sum_list_pos_real)
  show "sharpeRatios returns volatilities \<noteq> []"
    using assms(2) by (simp add: sharpeRatios_def)
  show "\<And>x. x \<in> set (sharpeRatios returns volatilities) \<Longrightarrow> 0 < x"
    using sharpeRatios_pos [OF assms(1,3,4)] by blast
qed

lemma optimalWeights_sum:
  assumes "length volatilities = length returns" "returns \<noteq> []"
    and "\<And>r. r \<in> set returns \<Longrightarrow> 0 < r" and "\<And>v. v \<in> set volatilities \<Longrightarrow> 0 < v"
  shows "sum_list (optimalWeights returns volatilities) = 100"
proof -
  have "sum_list (optimalWeights returns volatilities) =
      sum_list (sharpeRatios returns volatilities) / sum_list (sharpeRatios returns volatilities)
        * 100"
    unfolding optimalWeights_def Let_def reduce_sum_sum_list list.map_ident sum_list_scaled ..
  with totalSharpe_pos [OF assms] show ?thesis by simp
qed

text \<open>
  Claim C3, as amended. For parallel non-empty arrays of strictly positive returns and
  volatilities the output has one weight per asset, the weight of asset \<open>i\<close> is a common
  positive factor times \<open>return\<^sub>i / volatility\<^sub>i\<close>, and the weights, which are percentages,
  sum to 100 within \<open>10\<^sup>-\<^sup>9\<close>.
\<close>

theorem C3_sharpe_weights_percent:
  assumes "length volatilities = length returns" "returns \<noteq> []"
    and "\<forall>r \<in> set returns. 0 < r" and "\<forall>v \<in> set volatilities. 0 < v"
  shows "length (weights (optimize names returns volatilities)) = length returns \<and>
         (\<exists>c > 0. \<forall>i < length returns.
            weights (optimize names returns volatilities) ! i
              = c * (returns ! i / volatilities ! i)) \<and>
         \<bar>sum_list (weights (optimize names returns volatilities)) - 100\<bar> \<le> 1 / 10 ^ 9"
proof -
  define total where "total = sum_list (sharpeRatios returns volatilities)"
  have pos: "0 < total"
    unfolding total_def using assms by (intro totalSharpe_pos) auto
  have w: "weights (optimize names returns volatilities) = optimalWeights returns volatilities"
    by (simp add: optimize_def Let_def)
  have len: "length (optimalWeights returns volatilities) = length returns"
    by (simp add: optimalWeights_def Let_def sharpeRatios_def)
  have nth: "\<forall>i < length returns.
      optimalWeights returns volatilities ! i = (100 / total) * (returns ! i / volatilities ! i)"
    by (simp add: optimalWeights_def Let_def sharpeRatios_def reduce_sum_sum_list total_def
          mult_ac)
  have "sum_list (optimalWeights returns volatilities) = 100"
    using assms by (intro optimalWeights_sum) auto
  then have sum: "\<bar>sum_list (optimalWeights returns volatilities) - 100\<bar> \<le> 1 / 10 ^ 9"
    by simp
  have "0 < 100 / total" using pos by simp
  with nth have "\<exists>c > 0. \<forall>i < length returns.
      optimalWeights returns volatilities ! i = c * (returns ! i / volatilities ! i)"
    by blast
  with len sum show ?thesis unfolding w by blast
qed

text \<open>The five-asset universe of the source.\<close>

theorem C3_sharpe_weights_percent_witness:
  "length (weights optimizePortfolio) = 5 \<and>
   \<bar>sum_list (weights optimizePortfolio) - 100\<bar> \<le> 1 / 10 ^ 9"
  using C3_sharpe_weights_percent
    [of "[0.20, 0.15, 0.12, 0.25, 0.14]" "[0.12, 0.08, 0.06, 0.10, 0.07]"
        "[''Tech'', ''Healthcare'', ''Finance'', ''Energy'', ''Consumer'']"]
  by (simp add: optimizePortfolio_def)

text \<open>
  Claim C3 as stated fails on the five-asset universe of the source, whose output
  weights sum to 100, not to 1 within \<open>10\<^sup>-\<^sup>9\<close>; and it fails on empty arrays, whose
  output has no weight, so that the sum is 0.
\<close>

theorem C3_weights_sum_counterexample:
  "\<not> \<bar>sum_list (weights optimizePortfolio) - 1\<bar> \<le> 1 / 10 ^ 9 \<and>
   weights (optimize [] [] []) = [] \<and>
   \<not> \<bar>sum_list (weights (optimize [] [] [])) - 1\<bar> \<le> 1 / 10 ^ 9"
proof -
  have "sum_list (optimalWeights [0.12, 0.08, 0.06, 0.10, 0.07] [0.20, 0.15, 0.12, 0.25, 0.14]) = 100"
    by (rule optimalWeights_sum) auto
  moreover have "optimalWeights [] [] = []"
    by (simp add: optimalWeights_def sharpeRatios_def Let_def)
  ultimately show ?thesis
    by (simp add: optimizePortfolio_def optimize_def Let_def)
qed

section \<open>Properties of backtestStrategy\<close>

lemma roundEven_near: "\<bar>y - real_of_int n\<bar> < 1 / 2 \<Longrightarrow> roundEven y = n"
proof -
  assume a: "\<bar>y - real_of_int n\<bar> < 1 / 2"
  show ?thesis
  proof (cases "real_of_int n \<le> y")
    case True
    with a have f: "\<lfloor>y\<rfloor> = n" by (intro floor_unique) (auto simp: abs_less_iff)
    with a True show ?thesis by (simp add: roundEven_def Let_def abs_less_iff)
  next
    case False
    with a have f: "\<lfloor>y\<rfloor> = n - 1" by (intro floor_unique) (auto simp: abs_less_iff)
    with a False show ?thesis by (auto simp add: roundEven_def Let_def abs_less_iff)
  qed
qed

lemma fl_at:
  assumes "2 powr real_of_int k \<le> \<bar>x\<bar>" "\<bar>x\<bar> < 2 powr (real_of_int k + 1)"
  shows "fl x = real_of_int (roundEven (x / 2 powr real_of_int (k - 52))) * 2 powr real_of_int (k - 52)"
proof -
  have "(0::real) < 2 powr real_of_int k"
    by simp
  then have pos: "0 < \<bar>x\<bar>"
    using assms(1) by linarith
  then have "\<lfloor>log 2 \<bar>x\<bar>\<rfloor> = k"
    using assms by (simp add: floor_log_eq_powr_iff)
  with pos show ?thesis by (simp add: fl_def Let_def)
qed

lemma fl_near:
  assumes "2 powr real_of_int k \<le> \<bar>x\<bar>" "\<bar>x\<bar> < 2 powr (real_of_int k + 1)"
    and "\<bar>x / 2 powr real_of_int (k - 52) - real_of_int n\<bar> < 1 / 2"
  shows "fl x = real_of_int n * 2 powr real_of_int (k - 52)"
  using fl_at [OF assms(1,2)] roundEven_near [OF assms(3)] by simp

lemma overspend_nth:
  "length overspendSeries = 52"
  "overspendSeries ! 49 = pricePoint 1 (Some 1) (Some 1)"
  "overspendSeries ! 50 = pricePoint overspendClose
        (Some (2266086801139501 / 2 ^ 47)) (Some (3963508853875989 / 2 ^ 49))"
  "overspendSeries ! 51 = pricePoint crashClose
        (Some (2259049926721735 / 2 ^ 47)) (Some (3952249854807563 / 2 ^ 49))"
  by (simp_all add: overspendSeries_def nth_append)

lemma pricePoint_fields:
  "close (pricePoint cl m20 m50) = cl" "ma20 (pricePoint cl m20 m50) = m20"
  "ma50 (pricePoint cl m20 m50) = m50"
  by (simp_all add: pricePoint_def rawPoint_def)

text \<open>
  Claim C9, at the series \<open>overspendSeries\<close>. All its closes are positive and the trace has
  \<open>52 - 50 = 2\<close> records. At index 50 the averages cross and the rounded quotient
  \<open>10000 / 303.03030303030306\<close> is 33, although the exact quotient is below 33: the code
  buys 33 shares for \<open>10000 + 2\<^sup>-\<^sup>3\<^sup>9\<close> and is left with the capital \<open>-2\<^sup>-\<^sup>3\<^sup>9\<close>. The first
  record still has the value 10000; at index 51 the close has fallen to \<open>2\<^sup>-\<^sup>5\<^sup>0\<close> and the
  record's value is \<open>-2015 / 2\<^sup>5\<^sup>0\<close>, a negative number.
\<close>

theorem C9_backtest_overspend:
  "list_all (\<lambda>p. 0 < close p) overspendSeries \<and>
   length (backtestStrategy overspendSeries) = length overspendSeries - 50 \<and>
   fst (backtestLoop overspendSeries 51) = (- (1 / 2 ^ 39), 33) \<and>
   map value_r (backtestStrategy overspendSeries) = [10000, - (2015 / 2 ^ 50)] \<and>
   value_r (backtestStrategy overspendSeries ! 1) < 0"
proof -
  define cost :: real where "cost = 10000 + 1 / 2 ^ 39"
  define debt :: real where "debt = - (1 / 2 ^ 39)"
  define holding :: real where "holding = 33 / 2 ^ 50"
  have quotient: "div64 10000 overspendClose = 33"
    unfolding div64_def overspendClose_def
    using fl_near [of 5 "10000 / (5330965468004849 / 2 ^ 44)" "33 * 2 ^ 47"]
    by (simp add: powr_minus)
  have spent: "mul64 33 overspendClose = cost"
    unfolding mul64_def overspendClose_def cost_def
    using fl_near [of 13 "33 * (5330965468004849 / 2 ^ 44)" "10000 * 2 ^ 39 + 1"]
    by (simp add: powr_minus)
  have left: "sub64 10000 cost = debt"
    unfolding sub64_def cost_def debt_def
    using fl_near [of "- 39" "10000 - (10000 + 1 / 2 ^ 39)" "- (2 ^ 52)"]
    by (simp add: powr_minus)
  have total50: "add64 debt cost = 10000"
    unfolding add64_def cost_def debt_def
    using fl_near [of 13 "10000" "10000 * 2 ^ 39"]
    by (simp add: powr_minus)
  have held: "mul64 33 crashClose = holding"
    unfolding mul64_def crashClose_def holding_def
    using fl_near [of "- 45" "33 * (1 / 2 ^ 50)" "33 * 2 ^ 47"]
    by (simp add: powr_minus)
  have total51: "add64 debt holding = - (2015 / 2 ^ 50)"
    unfolding add64_def debt_def holding_def
    using fl_near [of "- 40" "- (1 / 2 ^ 39) + 33 / 2 ^ 50" "- (2015 * 2 ^ 42)"]
    by (simp add: powr_minus)
  define p49 where "p49 = overspendSeries ! 49"
  define p50 where "p50 = overspendSeries ! 50"
  define p51 where "p51 = overspendSeries ! 51"
  have at: "overspendSeries ! 49 = p49" "overspendSeries ! 50 = p50" "overspendSeries ! 51 = p51"
    by (simp_all add: p49_def p50_def p51_def)
  have closes: "close p50 = overspendClose" "close p51 = crashClose"
    by (simp_all add: p50_def p51_def overspend_nth pricePoint_fields)
  have averages:
    "ma20 p49 = Some 1" "ma50 p49 = Some 1"
    "ma20 p50 = Some (2266086801139501 / 2 ^ 47)" "ma50 p50 = Some (3963508853875989 / 2 ^ 49)"
    "ma20 p51 = Some (2259049926721735 / 2 ^ 47)" "ma50 p51 = Some (3952249854807563 / 2 ^ 49)"
    by (simp_all add: p49_def p50_def p51_def overspend_nth pricePoint_fields)
  have buy: "trade p50 p49 (10000, 0) = (debt, 33)"
    by (simp add: trade_def closes averages Let_def quotient spent left)
  have keep: "trade p51 p50 (debt, 33) = (debt, 33)"
    by (simp add: trade_def closes averages Let_def)
  have range: "[50 ..< 52] = [50, 51]"
    by (simp add: upt_rec)
  have state: "fst (backtestLoop overspendSeries 51) = (debt, 33)"
    by (simp add: backtestLoop_def backtestStep_def Let_def at buy)
  have vals: "map value_r (backtestStrategy overspendSeries) = [10000, - (2015 / 2 ^ 50)]"
    by (simp add: backtestStrategy_def backtestLoop_def overspend_nth(1) range
          backtestStep_def Let_def at buy keep closes spent total50 held total51)
  have len: "length (backtestStrategy overspendSeries) = 2"
    using arg_cong [OF vals, of length] by simp
  have "value_r (backtestStrategy overspendSeries ! 1) =
      map value_r (backtestStrategy overspendSeries) ! 1"
    using len by simp
  then have neg: "value_r (backtestStrategy overspendSeries ! 1) < 0"
    by (simp add: vals)
  have pos: "\<forall>p \<in> set overspendSeries. 0 < close p"
    by (auto simp add: overspendSeries_def pricePoint_fields overspendClose_def crashClose_def)
  from pos have "list_all (\<lambda>p. 0 < close p) overspendSeries"
    by (simp add: list_all_iff)
  with len state vals neg show ?thesis
    by (simp add: overspend_nth(1) debt_def)
qed

end
